theory Spec2Isabelle
  imports Complex_Main "HOL-Library.Sublist"
begin

section \<open>The scene composer and merger of compose\_scenes.py\<close>

text \<open>
  The development embeds \<^verbatim>\<open>scripts/compose_scenes.py\<close>: the duration prober
  \<^verbatim>\<open>get_media_duration\<close>, the scene compositor \<^verbatim>\<open>compose_scene\<close> (which contains
  the timeline scheduling loop), the reel merger \<^verbatim>\<open>merge_scenes\<close> and the driver
  \<^verbatim>\<open>main\<close>.

  Modelling decisions.
  \<^item> Python's \<^verbatim>\<open>float\<close> is modelled by \<^typ>\<open>real\<close>: sums and products are exact, so
    rounding, infinities and NaN of IEEE arithmetic are outside the model.
  \<^item> The operating system is a value of an arbitrary type \<open>'w\<close>. What the program asks
    of it (does a path exist, what does ffprobe print, what does ffmpeg do, writing a
    text file) is a field of the record \<open>env\<close>; nothing is assumed about these fields.
  \<^item> Every function that has an effect returns the new operating-system state and the
    list of effects it performed (\<open>event\<close>), in program order. \<^verbatim>\<open>print\<close> is not an
    event.
  \<^item> \<^verbatim>\<open>subprocess.run\<close> on ffprobe may raise (the call is inside \<^verbatim>\<open>try\<close>), and so
    may \<^verbatim>\<open>float\<close>; \<^verbatim>\<open>subprocess.run\<close> on ffmpeg is taken to return a completed
    process, of which only the return code is read.
\<close>

subsection \<open>Python primitives\<close>

definition digit_char :: "nat \<Rightarrow> char" where
  "digit_char d = ''0123456789'' ! d"

function str_nat :: "nat \<Rightarrow> string" where
  "str_nat n = (if n < 10 then [digit_char n] else str_nat (n div 10) @ [digit_char (n mod 10)])"
  by pat_completeness auto
termination
  by (relation "measure id") auto

declare str_nat.simps [simp del]

text \<open>\<^verbatim>\<open>str\<close> of a Python integer, as an f-string renders it.\<close>

definition str_int :: "int \<Rightarrow> string" where
  "str_int i = (if i < 0 then ''-'' @ str_nat (nat (- i)) else str_nat (nat i))"

text \<open>\<^verbatim>\<open>int(x)\<close> of a float: truncation towards zero.\<close>

definition py_int :: "real \<Rightarrow> int" where
  "py_int x = (if 0 \<le> x then \<lfloor>x\<rfloor> else \<lceil>x\<rceil>)"

text \<open>\<^verbatim>\<open>sep.join(xs)\<close>.\<close>

fun join :: "string \<Rightarrow> string list \<Rightarrow> string" where
  "join sep [] = []"
| "join sep [x] = x"
| "join sep (x # y # ys) = x @ sep @ join sep (y # ys)"

text \<open>\<^verbatim>\<open>s.strip()\<close>, for the ASCII white space characters.\<close>

definition is_space :: "char \<Rightarrow> bool" where
  "is_space c = (let n = (of_char c :: nat) in (9 \<le> n \<and> n \<le> 13) \<or> (28 \<le> n \<and> n \<le> 32))"

definition strip :: "string \<Rightarrow> string" where
  "strip s = rev (dropWhile is_space (rev (dropWhile is_space s)))"

subsection \<open>The environment\<close>

datatype py_error = OSError | ValueError | OtherError

record completed_process =
  returncode :: int
  stdout :: string
  stderr :: string

datatype event = Run "string list" | WriteText string string

record 'w env =
  path_exists :: "'w \<Rightarrow> string \<Rightarrow> bool"
  path_absolute :: "'w \<Rightarrow> string \<Rightarrow> string"
  run_ffprobe :: "'w \<Rightarrow> string list \<Rightarrow> py_error + completed_process"
  py_float :: "string \<Rightarrow> py_error + real"
  run_ffmpeg :: "'w \<Rightarrow> string list \<Rightarrow> completed_process \<times> 'w"
  write_text :: "'w \<Rightarrow> string \<Rightarrow> string \<Rightarrow> 'w"

text \<open>
  \<open>path_exists env w p\<close> is \<^verbatim>\<open>Path(p).exists()\<close>, \<open>path_absolute env w p\<close> is
  \<^verbatim>\<open>str(Path(p).absolute())\<close>, \<open>run_ffprobe\<close> and \<open>run_ffmpeg\<close> are
  \<^verbatim>\<open>subprocess.run\<close> on the two executables (\<open>Inl\<close>: the call raised), \<open>py_float\<close> is
  the builtin \<^verbatim>\<open>float\<close> on a string (\<open>Inl\<close>: it raised), and \<open>write_text\<close> writes a text
  file.
\<close>

subsection \<open>Directories\<close>

definition COMPOSED_DIR :: string where
  "COMPOSED_DIR = ''outputs/composed''"

definition FINAL_DIR :: string where
  "FINAL_DIR = ''outputs/final''"

subsection \<open>get\_media\_duration\<close>

definition ffprobe_cmd :: "string \<Rightarrow> string list" where
  "ffprobe_cmd file_path =
     [''ffprobe'', ''-v'', ''error'',
      ''-show_entries'', ''format=duration'',
      ''-of'', ''default=noprint_wrappers=1:nokey=1'',
      file_path]"

text \<open>The body of the \<^verbatim>\<open>try\<close> block: it returns a float or raises.\<close>

definition probe_body :: "'w env \<Rightarrow> 'w \<Rightarrow> string \<Rightarrow> py_error + real" where
  "probe_body env w file_path =
     (case run_ffprobe env w (ffprobe_cmd file_path) of
        Inl e \<Rightarrow> Inl e
      | Inr result \<Rightarrow> py_float env (strip (stdout result)))"

text \<open>The bare \<^verbatim>\<open>except:\<close> turns every exception of the body into 5.0.\<close>

definition get_media_duration :: "'w env \<Rightarrow> 'w \<Rightarrow> string \<Rightarrow> real" where
  "get_media_duration env w file_path =
     (case probe_body env w file_path of
        Inr d \<Rightarrow> d
      | Inl e \<Rightarrow> 5.0)"

subsection \<open>compose\_scene\<close>

text \<open>
  A dialogue record of \<^verbatim>\<open>audio_paths.json\<close>, as \<^verbatim>\<open>generate_tts.py\<close> writes it. The
  key \<^verbatim>\<open>path\<close> is read with \<^verbatim>\<open>.get("path", "")\<close>, so it may be missing.
\<close>

record audio_info =
  ai_path :: "string option"
  ai_character :: string
  ai_text :: string
  ai_scene_id :: int
  ai_order :: int

definition get_path :: "audio_info \<Rightarrow> string" where
  "get_path audio_info = (case ai_path audio_info of None \<Rightarrow> [] | Some p \<Rightarrow> p)"

definition composed_path :: "int \<Rightarrow> string" where
  "composed_path scene_id = COMPOSED_DIR @ ''/'' @ ''scene_'' @ str_int scene_id @ ''_composed.mp4''"

definition passthrough_cmd :: "string \<Rightarrow> string \<Rightarrow> string list" where
  "passthrough_cmd video_path output_path =
     [''ffmpeg'', ''-y'', ''-i'', video_path,
      ''-c:v'', ''copy'', ''-an'',
      output_path]"

definition gap :: real where
  "gap = 0.3"

text \<open>
  The variables the scheduling loop updates. \<open>scheduled\<close> is a ghost variable: it
  records, for every clip that is not skipped, the loop index and the value of
  \<^verbatim>\<open>current_time\<close> at the moment the clip's delay filter is appended.
\<close>

record loop_state =
  audio_inputs :: "string list"
  filter_parts :: "string list"
  current_time :: real
  scheduled :: "(nat \<times> real) list"

text \<open>
  The f-string
  \<^verbatim>\<open>[{audio_idx}:a]adelay={int(current_time*1000)}|{int(current_time*1000)}[a{idx}]\<close>.
\<close>

definition delay_filter :: "nat \<Rightarrow> nat \<Rightarrow> real \<Rightarrow> string" where
  "delay_filter audio_idx idx t =
     ''['' @ str_nat audio_idx @ '':a]adelay='' @ str_int (py_int (t * 1000)) @ ''|''
       @ str_int (py_int (t * 1000)) @ ''[a'' @ str_nat idx @ '']''"

definition loop_body :: "'w env \<Rightarrow> 'w \<Rightarrow> loop_state \<Rightarrow> nat \<times> audio_info \<Rightarrow> loop_state" where
  "loop_body env w s ia =
     (let idx = fst ia; audio_info = snd ia;
          audio_path = get_path audio_info
      in if \<not> path_exists env w audio_path then s
         else
           let audio_idx = idx + 1;
               audio_duration = get_media_duration env w audio_path
           in s\<lparr>audio_inputs := audio_inputs s @ [''-i'', audio_path],
                filter_parts := filter_parts s @ [delay_filter audio_idx idx (current_time s)],
                scheduled := scheduled s @ [(idx, current_time s)],
                current_time := current_time s + (audio_duration + gap)\<rparr>)"

definition init_state :: "string \<Rightarrow> loop_state" where
  "init_state video_path =
     \<lparr>audio_inputs = [''-i'', video_path], filter_parts = [], current_time = 0.2,
      scheduled = []\<rparr>"

definition schedule_loop :: "'w env \<Rightarrow> 'w \<Rightarrow> string \<Rightarrow> audio_info list \<Rightarrow> loop_state" where
  "schedule_loop env w video_path audio_files =
     foldl (loop_body env w) (init_state video_path) (enumerate 0 audio_files)"

definition audio_labels :: "nat \<Rightarrow> string" where
  "audio_labels n = concat (map (\<lambda>i. ''[a'' @ str_nat i @ '']'') [0..<n])"

definition filter_complex :: "string list \<Rightarrow> string" where
  "filter_complex parts =
     join '';''
       (parts @ [audio_labels (length parts) @ ''amix=inputs='' @ str_nat (length parts)
                   @ '':duration=longest[aout]''])"

definition mix_cmd :: "loop_state \<Rightarrow> string \<Rightarrow> string list" where
  "mix_cmd s output_path =
     [''ffmpeg'', ''-y''] @ audio_inputs s @
     [''-filter_complex'', filter_complex (filter_parts s),
      ''-map'', ''0:v'',
      ''-map'', ''[aout]'',
      ''-c:v'', ''libx264'', ''-preset'', ''fast'',
      ''-c:a'', ''aac'', ''-b:a'', ''128k'',
      ''-shortest'',
      output_path]"

text \<open>
  \<^verbatim>\<open>compose_scene\<close> returns the composed path or \<^verbatim>\<open>None\<close>, the state the commands
  left and the commands it ran. The source also probes the video's duration and counts
  the dialogues before the loop (\<^verbatim>\<open>video_duration\<close>, \<^verbatim>\<open>num_dialogues\<close>); neither value
  is used afterwards and the probe has no effect, so they do not appear here.
\<close>

definition compose_scene ::
  "'w env \<Rightarrow> 'w \<Rightarrow> int \<Rightarrow> string \<Rightarrow> audio_info list \<Rightarrow> string option \<times> 'w \<times> event list" where
  "compose_scene env w scene_id video_path audio_files =
     (let output_path = composed_path scene_id
      in if \<not> path_exists env w video_path then (None, w, [])
         else if audio_files = [] then
           (let copy = passthrough_cmd video_path output_path
            in (Some output_path, snd (run_ffmpeg env w copy), [Run copy]))
         else
           let s = schedule_loop env w video_path audio_files
           in if filter_parts s = [] then
                (let copy = passthrough_cmd video_path output_path
                 in (Some output_path, snd (run_ffmpeg env w copy), [Run copy]))
              else
                let cmd = mix_cmd s output_path;
                    result = run_ffmpeg env w cmd
                in if returncode (fst result) \<noteq> 0 then
                     (let copy = passthrough_cmd video_path output_path
                      in (Some output_path, snd (run_ffmpeg env (snd result) copy),
                          [Run cmd, Run copy]))
                   else (Some output_path, snd result, [Run cmd]))"

text \<open>
  The start offsets the loop assigned, in the order of assignment (read off the ghost
  variable).
\<close>

definition start_offsets :: "'w env \<Rightarrow> 'w \<Rightarrow> string \<Rightarrow> audio_info list \<Rightarrow> real list" where
  "start_offsets env w video_path audio_files =
     map snd (scheduled (schedule_loop env w video_path audio_files))"

subsection \<open>merge\_scenes\<close>

text \<open>
  \<^verbatim>\<open>[v for v in composed_videos if v and Path(v).exists()]\<close>: an entry is kept when it
  is truthy (neither \<^verbatim>\<open>None\<close> nor the empty string) and names an existing path.
\<close>

definition valid_videos :: "'w env \<Rightarrow> 'w \<Rightarrow> string option list \<Rightarrow> string list" where
  "valid_videos env w composed_videos =
     [v. Some v \<leftarrow> composed_videos, v \<noteq> [] \<and> path_exists env w v]"

definition final_reel_path :: string where
  "final_reel_path = FINAL_DIR @ ''/'' @ ''final_reel.mp4''"

definition concat_file :: string where
  "concat_file = FINAL_DIR @ ''/'' @ ''concat_list.txt''"

text \<open>One line of the concat list: \<^verbatim>\<open>file '<absolute path>'\<close> and a newline.\<close>

definition concat_line :: "'w env \<Rightarrow> 'w \<Rightarrow> string \<Rightarrow> string" where
  "concat_line env w video =
     ''file '' @ [CHR 0x27] @ path_absolute env w video @ [CHR 0x27, CHR 0x0A]"

definition manifest :: "'w env \<Rightarrow> 'w \<Rightarrow> string list \<Rightarrow> string" where
  "manifest env w videos = concat (map (concat_line env w) videos)"

definition merge_cmd :: "string \<Rightarrow> string \<Rightarrow> string list" where
  "merge_cmd list_file output_path =
     [''ffmpeg'', ''-y'',
      ''-f'', ''concat'', ''-safe'', ''0'',
      ''-i'', list_file,
      ''-vf'', ''scale=1080:1920:force_original_aspect_ratio=decrease,pad=1080:1920:(ow-iw)/2:(oh-ih)/2,setsar=1'',
      ''-c:v'', ''libx264'', ''-preset'', ''medium'', ''-crf'', ''23'',
      ''-c:a'', ''aac'', ''-b:a'', ''128k'',
      ''-movflags'', ''+faststart'',
      output_path]"

text \<open>
  After a successful encode the source probes the reel's duration only to print it; the
  probe has no effect and its value is not used.
\<close>

definition merge_scenes ::
  "'w env \<Rightarrow> 'w \<Rightarrow> string option list \<Rightarrow> string option \<times> 'w \<times> event list" where
  "merge_scenes env w composed_videos =
     (let output_path = final_reel_path;
          valid = valid_videos env w composed_videos
      in if valid = [] then (None, w, [])
         else
           let listing = manifest env w valid;
               w1 = write_text env w concat_file listing;
               cmd = merge_cmd concat_file output_path;
               result = run_ffmpeg env w1 cmd
           in if returncode (fst result) \<noteq> 0 then
                (None, snd result, [WriteText concat_file listing, Run cmd])
              else (Some output_path, snd result, [WriteText concat_file listing, Run cmd]))"

subsection \<open>main\<close>

text \<open>
  One entry of \<^verbatim>\<open>audio_paths.json\<close>. \<^verbatim>\<open>main\<close> is modelled from the point where
  \<^verbatim>\<open>video_paths\<close> and \<^verbatim>\<open>audio_data\<close> have been loaded; it returns the exit status
  of the process (1 for \<^verbatim>\<open>sys.exit(1)\<close>, 0 when \<^verbatim>\<open>main\<close> returns).
\<close>

record scene_audio =
  sa_scene_id :: int
  sa_audio_files :: "audio_info list"

text \<open>The dict comprehension: a later entry with the same key replaces an earlier one.\<close>

definition audio_by_scene :: "scene_audio list \<Rightarrow> (int \<rightharpoonup> audio_info list)" where
  "audio_by_scene audio_data = map_of (rev (map (\<lambda>s. (sa_scene_id s, sa_audio_files s)) audio_data))"

text \<open>\<^verbatim>\<open>audio_by_scene.get(scene_id, [])\<close>.\<close>

definition audio_for :: "(int \<rightharpoonup> audio_info list) \<Rightarrow> int \<Rightarrow> audio_info list" where
  "audio_for by_scene scene_id = (case by_scene scene_id of None \<Rightarrow> [] | Some fs \<Rightarrow> fs)"

text \<open>The loop of \<^verbatim>\<open>main\<close> over \<^verbatim>\<open>enumerate(video_paths)\<close>.\<close>

fun compose_all ::
  "'w env \<Rightarrow> 'w \<Rightarrow> (int \<rightharpoonup> audio_info list) \<Rightarrow> (nat \<times> string) list
     \<Rightarrow> string option list \<times> 'w \<times> event list" where
  "compose_all env w by_scene [] = ([], w, [])"
| "compose_all env w by_scene ((idx, video_path) # rest) =
     (let scene_id = int idx + 1;
          audio_files = audio_for by_scene scene_id;
          composed = compose_scene env w scene_id video_path audio_files;
          others = compose_all env (fst (snd composed)) by_scene rest
      in (fst composed # fst others, fst (snd others), snd (snd composed) @ snd (snd others)))"

definition sidecar_path :: string where
  "sidecar_path = ''outputs/final_reel_path.txt''"

definition main :: "'w env \<Rightarrow> 'w \<Rightarrow> string list \<Rightarrow> scene_audio list \<Rightarrow> int \<times> 'w \<times> event list" where
  "main env w video_paths audio_data =
     (let composed = compose_all env w (audio_by_scene audio_data) (enumerate 0 video_paths);
          composed_videos = fst composed;
          merged = merge_scenes env (fst (snd composed)) composed_videos;
          events = snd (snd composed) @ snd (snd merged)
      in case fst merged of
           None \<Rightarrow> (1, fst (snd merged), events)
         | Some final_reel \<Rightarrow>
             if final_reel \<noteq> [] then
               (0, write_text env (fst (snd merged)) sidecar_path final_reel,
                events @ [WriteText sidecar_path final_reel])
             else (1, fst (snd merged), events))"

subsection \<open>Concrete environments\<close>

text \<open>
  A small operating system on which the definitions can be run: the state is the list of
  existing paths, ffprobe prints a duration for three known clips and nothing for any
  other file, and ffmpeg fails (leaving the state as it is) exactly on the commands that
  \<open>fails\<close> selects; otherwise it creates its output file, the last argument.
\<close>

definition test_stdout :: "string \<Rightarrow> string" where
  "test_stdout p =
     (if p = ''a.mp3'' then ''2.000000'' @ [CHR 0x0A]
      else if p = ''b.mp3'' then ''3.000000'' @ [CHR 0x0A]
      else if p = ''c.mp3'' then ''1.234600'' @ [CHR 0x0A]
      else [])"

definition test_float :: "string \<Rightarrow> py_error + real" where
  "test_float s =
     (if s = ''2.000000'' then Inr 2.0
      else if s = ''3.000000'' then Inr 3.0
      else if s = ''1.234600'' then Inr 1.2346
      else Inl ValueError)"

definition ok :: completed_process where
  "ok = \<lparr>returncode = 0, stdout = [], stderr = []\<rparr>"

definition failed :: completed_process where
  "failed = \<lparr>returncode = 1, stdout = [], stderr = ''Invalid data found when processing input''\<rparr>"

definition test_env :: "(string list \<Rightarrow> bool) \<Rightarrow> string list env" where
  "test_env fails =
     \<lparr>path_exists = (\<lambda>w p. p \<in> set w),
      path_absolute = (\<lambda>w p. ''/work/'' @ p),
      run_ffprobe = (\<lambda>w cmd.
         if last cmd \<in> set w then Inr (ok\<lparr>stdout := test_stdout (last cmd)\<rparr>)
         else Inr (failed\<lparr>stderr := ''No such file or directory''\<rparr>)),
      py_float = test_float,
      run_ffmpeg = (\<lambda>w cmd. if fails cmd then (failed, w) else (ok, last cmd # w)),
      write_text = (\<lambda>w p content. p # w)\<rparr>"

definition never :: "string list \<Rightarrow> bool" where
  "never cmd = False"

definition always :: "string list \<Rightarrow> bool" where
  "always cmd = True"

definition merge_fails :: "string list \<Rightarrow> bool" where
  "merge_fails cmd = (''concat'' \<in> set cmd)"

text \<open>The same system without an ffprobe executable: launching it raises.\<close>

definition no_ffprobe_env :: "string list env" where
  "no_ffprobe_env = (test_env never)\<lparr>run_ffprobe := (\<lambda>w cmd. Inl OSError)\<rparr>"

definition clip :: "string \<Rightarrow> int \<Rightarrow> audio_info" where
  "clip p n = \<lparr>ai_path = Some p, ai_character = ''narrator'', ai_text = ''hello'',
               ai_scene_id = 1, ai_order = n\<rparr>"

definition mix_fails :: "string list \<Rightarrow> bool" where
  "mix_fails cmd = (''-filter_complex'' \<in> set cmd)"

subsection \<open>Auxiliary notions\<close>

text \<open>
  The cursor values of a run of the loop in which no clip is skipped: it starts at \<open>c\<close>
  and advances by each duration plus the gap.
\<close>

fun offsets_from :: "real \<Rightarrow> real list \<Rightarrow> real list" where
  "offsets_from c [] = []"
| "offsets_from c (d # ds) = c # offsets_from (c + (d + gap)) ds"


section \<open>Theorems\<close>

subsection \<open>Evaluation of the concrete environments\<close>

lemmas env_defs =
  test_env_def test_stdout_def test_float_def ok_def failed_def never_def always_def
  clip_def

lemmas probe_defs =
  get_media_duration_def probe_body_def ffprobe_cmd_def strip_def is_space_def

lemmas compose_defs =
  compose_scene_def schedule_loop_def init_state_def loop_body_def get_path_def gap_def
  mix_cmd_def filter_complex_def audio_labels_def delay_filter_def str_int_def py_int_def
  str_nat.simps digit_char_def composed_path_def COMPOSED_DIR_def passthrough_cmd_def
  Let_def

subsection \<open>The scheduling loop\<close>

lemma length_offsets_from [simp]: "length (offsets_from c ds) = length ds"
  by (induction ds arbitrary: c) auto










text \<open>The loop body reads only the \<^verbatim>\<open>path\<close> of a dialogue record.\<close>

lemma loop_body_order:
  "loop_body env w s (k, a\<lparr>ai_order := n\<rparr>) = loop_body env w s (k, a)"
  by (simp add: loop_body_def get_path_def)

lemma foldl_order:
  "foldl (loop_body env w) s (enumerate k (map (\<lambda>a. a\<lparr>ai_order := n\<rparr>) afs)) =
   foldl (loop_body env w) s (enumerate k afs)"
  by (induction afs arbitrary: s k) (simp_all add: loop_body_order)

lemma schedule_loop_order:
  "schedule_loop env w video_path (map (\<lambda>a. a\<lparr>ai_order := n\<rparr>) afs) =
   schedule_loop env w video_path afs"
  by (simp add: schedule_loop_def foldl_order)

lemma compose_scene_order:
  "compose_scene env w scene_id video_path (map (\<lambda>a. a\<lparr>ai_order := n\<rparr>) afs) =
   compose_scene env w scene_id video_path afs"
  by (simp add: compose_scene_def schedule_loop_order Let_def)

subsection \<open>The schedule of a scene whose clips all exist\<close>



subsection \<open>Delays in the mix graph\<close>



subsection \<open>The order field\<close>

text \<open>
  Claim C10. \<^verbatim>\<open>compose_scene\<close> does not read the \<^verbatim>\<open>order\<close> field: two dialogue lists
  that agree once every \<^verbatim>\<open>order\<close> field is overwritten with the same value give the
  same start offsets, the same mix graph, the same loop state and the same result,
  operating-system state and commands.
\<close>

theorem order_not_read:
  assumes "map (\<lambda>a. a\<lparr>ai_order := 0\<rparr>) xs = map (\<lambda>a. a\<lparr>ai_order := 0\<rparr>) ys"
  shows "start_offsets env w video_path xs = start_offsets env w video_path ys
    \<and> filter_complex (filter_parts (schedule_loop env w video_path xs)) =
        filter_complex (filter_parts (schedule_loop env w video_path ys))
    \<and> mix_cmd (schedule_loop env w video_path xs) (composed_path scene_id) =
        mix_cmd (schedule_loop env w video_path ys) (composed_path scene_id)
    \<and> compose_scene env w scene_id video_path xs = compose_scene env w scene_id video_path ys"
proof -
  have "schedule_loop env w video_path xs =
      schedule_loop env w video_path (map (\<lambda>a. a\<lparr>ai_order := 0\<rparr>) xs)"
    by (simp only: schedule_loop_order)
  also have "\<dots> = schedule_loop env w video_path (map (\<lambda>a. a\<lparr>ai_order := 0\<rparr>) ys)"
    by (simp only: assms)
  also have "\<dots> = schedule_loop env w video_path ys"
    by (simp only: schedule_loop_order)
  finally have loop: "schedule_loop env w video_path xs = schedule_loop env w video_path ys" .
  have "compose_scene env w scene_id video_path xs =
      compose_scene env w scene_id video_path (map (\<lambda>a. a\<lparr>ai_order := 0\<rparr>) xs)"
    by (simp only: compose_scene_order)
  also have "\<dots> = compose_scene env w scene_id video_path (map (\<lambda>a. a\<lparr>ai_order := 0\<rparr>) ys)"
    by (simp only: assms)
  also have "\<dots> = compose_scene env w scene_id video_path ys"
    by (simp only: compose_scene_order)
  finally have "compose_scene env w scene_id video_path xs =
      compose_scene env w scene_id video_path ys" .
  with loop show ?thesis by (simp add: start_offsets_def)
qed

theorem order_not_read_witness:
  "map (\<lambda>a. a\<lparr>ai_order := 0\<rparr>) [clip ''a.mp3'' 1, clip ''b.mp3'' 2] =
     map (\<lambda>a. a\<lparr>ai_order := 0\<rparr>) [clip ''a.mp3'' 2, clip ''b.mp3'' 1]
   \<and> start_offsets (test_env never) [''v.mp4'', ''a.mp3'', ''b.mp3''] ''v.mp4''
        [clip ''a.mp3'' 1, clip ''b.mp3'' 2] =
      start_offsets (test_env never) [''v.mp4'', ''a.mp3'', ''b.mp3''] ''v.mp4''
        [clip ''a.mp3'' 2, clip ''b.mp3'' 1]
   \<and> compose_scene (test_env never) [''v.mp4'', ''a.mp3'', ''b.mp3''] 1 ''v.mp4''
        [clip ''a.mp3'' 1, clip ''b.mp3'' 2] =
      compose_scene (test_env never) [''v.mp4'', ''a.mp3'', ''b.mp3''] 1 ''v.mp4''
        [clip ''a.mp3'' 2, clip ''b.mp3'' 1]"
proof -
  have h: "map (\<lambda>a. a\<lparr>ai_order := 0\<rparr>) [clip ''a.mp3'' 1, clip ''b.mp3'' 2] =
     map (\<lambda>a. a\<lparr>ai_order := 0\<rparr>) [clip ''a.mp3'' 2, clip ''b.mp3'' 1]"
    by (simp add: clip_def)
  from order_not_read [OF h, of "test_env never" "[''v.mp4'', ''a.mp3'', ''b.mp3'']" "''v.mp4''" 1] h
  show ?thesis by blast
qed

subsection \<open>Failure of the mix encode\<close>

text \<open>
  Claim C3. When the video file exists, \<^verbatim>\<open>compose_scene\<close> returns the composed output
  path in every branch, never \<^verbatim>\<open>None\<close>. When in addition the mix command is run and
  ends with a non-zero return code, the video-only passthrough command is run next, on
  the state the failed encode left, and these two are the only commands run.
\<close>

theorem encode_failure_falls_back:
  assumes "path_exists env w video_path"
  shows "fst (compose_scene env w scene_id video_path audio_files) = Some (composed_path scene_id)
    \<and> (audio_files \<noteq> []
         \<and> filter_parts (schedule_loop env w video_path audio_files) \<noteq> []
         \<and> returncode (fst (run_ffmpeg env w
              (mix_cmd (schedule_loop env w video_path audio_files) (composed_path scene_id)))) \<noteq> 0
       \<longrightarrow> compose_scene env w scene_id video_path audio_files =
            (Some (composed_path scene_id),
             snd (run_ffmpeg env
                   (snd (run_ffmpeg env w
                      (mix_cmd (schedule_loop env w video_path audio_files)
                         (composed_path scene_id))))
                   (passthrough_cmd video_path (composed_path scene_id))),
             [Run (mix_cmd (schedule_loop env w video_path audio_files) (composed_path scene_id)),
              Run (passthrough_cmd video_path (composed_path scene_id))]))"
  using assms by (simp add: compose_scene_def Let_def)

theorem encode_failure_falls_back_witness:
  "path_exists (test_env mix_fails) [''v.mp4'', ''a.mp3'', ''b.mp3''] ''v.mp4''
   \<and> [clip ''a.mp3'' 1, clip ''b.mp3'' 2] \<noteq> []
   \<and> filter_parts (schedule_loop (test_env mix_fails) [''v.mp4'', ''a.mp3'', ''b.mp3''] ''v.mp4''
        [clip ''a.mp3'' 1, clip ''b.mp3'' 2]) \<noteq> []
   \<and> returncode (fst (run_ffmpeg (test_env mix_fails) [''v.mp4'', ''a.mp3'', ''b.mp3'']
        (mix_cmd (schedule_loop (test_env mix_fails) [''v.mp4'', ''a.mp3'', ''b.mp3''] ''v.mp4''
           [clip ''a.mp3'' 1, clip ''b.mp3'' 2]) (composed_path 1)))) \<noteq> 0
   \<and> compose_scene (test_env mix_fails) [''v.mp4'', ''a.mp3'', ''b.mp3''] 1 ''v.mp4''
        [clip ''a.mp3'' 1, clip ''b.mp3'' 2] =
      (Some ''outputs/composed/scene_1_composed.mp4'',
       [''outputs/composed/scene_1_composed.mp4'', ''v.mp4'', ''a.mp3'', ''b.mp3''],
       [Run [''ffmpeg'', ''-y'', ''-i'', ''v.mp4'', ''-i'', ''a.mp3'', ''-i'', ''b.mp3'',
             ''-filter_complex'',
             ''[1:a]adelay=200|200[a0];[2:a]adelay=2500|2500[a1];[a0][a1]amix=inputs=2:duration=longest[aout]'',
             ''-map'', ''0:v'', ''-map'', ''[aout]'', ''-c:v'', ''libx264'',
             ''-preset'', ''fast'', ''-c:a'', ''aac'', ''-b:a'', ''128k'',
             ''-shortest'', ''outputs/composed/scene_1_composed.mp4''],
        Run [''ffmpeg'', ''-y'', ''-i'', ''v.mp4'', ''-c:v'', ''copy'', ''-an'',
             ''outputs/composed/scene_1_composed.mp4'']])"
proof -
  let ?env = "test_env mix_fails"
  let ?w = "[''v.mp4'', ''a.mp3'', ''b.mp3'']"
  let ?afs = "[clip ''a.mp3'' 1, clip ''b.mp3'' 2]"
  let ?mix = "mix_cmd (schedule_loop ?env ?w ''v.mp4'' ?afs) (composed_path 1)"
  have v: "path_exists ?env ?w ''v.mp4''"
    by (simp add: env_defs)
  have ne: "?afs \<noteq> []" by simp
  have mix: "?mix =
      [''ffmpeg'', ''-y'', ''-i'', ''v.mp4'', ''-i'', ''a.mp3'', ''-i'', ''b.mp3'',
       ''-filter_complex'',
       ''[1:a]adelay=200|200[a0];[2:a]adelay=2500|2500[a1];[a0][a1]amix=inputs=2:duration=longest[aout]'',
       ''-map'', ''0:v'', ''-map'', ''[aout]'', ''-c:v'', ''libx264'',
       ''-preset'', ''fast'', ''-c:a'', ''aac'', ''-b:a'', ''128k'',
       ''-shortest'', ''outputs/composed/scene_1_composed.mp4'']"
    by (simp add: env_defs probe_defs compose_defs)
  have parts: "filter_parts (schedule_loop ?env ?w ''v.mp4'' ?afs) \<noteq> []"
    by (simp add: env_defs probe_defs compose_defs)
  have rc: "returncode (fst (run_ffmpeg ?env ?w ?mix)) \<noteq> 0"
    unfolding mix by (simp add: env_defs mix_fails_def)
  from encode_failure_falls_back [OF v, of 1 ?afs] ne parts rc
  have "compose_scene ?env ?w 1 ''v.mp4'' ?afs =
      (Some (composed_path 1),
       snd (run_ffmpeg ?env (snd (run_ffmpeg ?env ?w ?mix))
              (passthrough_cmd ''v.mp4'' (composed_path 1))),
       [Run ?mix, Run (passthrough_cmd ''v.mp4'' (composed_path 1))])"
    by blast
  then have "compose_scene ?env ?w 1 ''v.mp4'' ?afs =
      (Some ''outputs/composed/scene_1_composed.mp4'',
       [''outputs/composed/scene_1_composed.mp4'', ''v.mp4'', ''a.mp3'', ''b.mp3''],
       [Run [''ffmpeg'', ''-y'', ''-i'', ''v.mp4'', ''-i'', ''a.mp3'', ''-i'', ''b.mp3'',
             ''-filter_complex'',
             ''[1:a]adelay=200|200[a0];[2:a]adelay=2500|2500[a1];[a0][a1]amix=inputs=2:duration=longest[aout]'',
             ''-map'', ''0:v'', ''-map'', ''[aout]'', ''-c:v'', ''libx264'',
             ''-preset'', ''fast'', ''-c:a'', ''aac'', ''-b:a'', ''128k'',
             ''-shortest'', ''outputs/composed/scene_1_composed.mp4''],
        Run [''ffmpeg'', ''-y'', ''-i'', ''v.mp4'', ''-c:v'', ''copy'', ''-an'',
             ''outputs/composed/scene_1_composed.mp4'']])"
    unfolding mix
    by (simp add: env_defs mix_fails_def passthrough_cmd_def composed_path_def COMPOSED_DIR_def
        str_int_def str_nat.simps digit_char_def)
  with v ne parts rc show ?thesis by blast
qed

subsection \<open>Scenes without usable audio\<close>




subsection \<open>A missing clip before a surviving one\<close>

text \<open>
  Claim C2 asks that, when some clips are missing, the mix command refer to exactly the
  surviving clips with consistent input indices and labels. With the first clip missing
  and the second present the command built by \<^verbatim>\<open>compose_scene\<close> supplies one audio input
  (input 1) but its graph reads input 2 and names the delayed stream \<open>a1\<close>, while the mix
  consumes the label \<open>a0\<close>, which no filter defines.
\<close>

theorem missing_first_clip_command:
  "map fst (scheduled (schedule_loop (test_env never) [''v.mp4'', ''b.mp3''] ''v.mp4''
       [clip ''a.mp3'' 1, clip ''b.mp3'' 2])) = [1]
   \<and> audio_inputs (schedule_loop (test_env never) [''v.mp4'', ''b.mp3''] ''v.mp4''
       [clip ''a.mp3'' 1, clip ''b.mp3'' 2]) = [''-i'', ''v.mp4'', ''-i'', ''b.mp3'']
   \<and> snd (snd (compose_scene (test_env never) [''v.mp4'', ''b.mp3''] 1 ''v.mp4''
       [clip ''a.mp3'' 1, clip ''b.mp3'' 2])) =
      [Run [''ffmpeg'', ''-y'', ''-i'', ''v.mp4'', ''-i'', ''b.mp3'',
            ''-filter_complex'',
            ''[2:a]adelay=200|200[a1];[a0]amix=inputs=1:duration=longest[aout]'',
            ''-map'', ''0:v'', ''-map'', ''[aout]'', ''-c:v'', ''libx264'',
            ''-preset'', ''fast'', ''-c:a'', ''aac'', ''-b:a'', ''128k'',
            ''-shortest'', ''outputs/composed/scene_1_composed.mp4'']]"
  by (simp add: env_defs probe_defs compose_defs)

subsection \<open>The duration prober\<close>

text \<open>
  Claim C7. \<^verbatim>\<open>get_media_duration\<close> always returns a float and never raises: it returns the
  parsed duration when ffprobe ran and its stripped output parses as a float, and exactly
  5.0 whenever launching ffprobe raises or the output does not parse (which is how a
  missing file or a failed ffprobe run, printing nothing, reaches the function).
\<close>

theorem probe_never_raises:
  "(run_ffprobe env w (ffprobe_cmd file_path) = Inl e
      \<longrightarrow> get_media_duration env w file_path = 5.0)
   \<and> (run_ffprobe env w (ffprobe_cmd file_path) = Inr result
        \<and> py_float env (strip (stdout result)) = Inl e
      \<longrightarrow> get_media_duration env w file_path = 5.0)
   \<and> (run_ffprobe env w (ffprobe_cmd file_path) = Inr result
        \<and> py_float env (strip (stdout result)) = Inr d
      \<longrightarrow> get_media_duration env w file_path = d)
   \<and> (probe_body env w file_path = Inl e \<longrightarrow> get_media_duration env w file_path = 5.0)
   \<and> (get_media_duration env w file_path = 5.0
        \<or> (\<exists>r. run_ffprobe env w (ffprobe_cmd file_path) = Inr r
              \<and> py_float env (strip (stdout r)) = Inr (get_media_duration env w file_path)))"
  by (auto simp: get_media_duration_def probe_body_def split: sum.splits)

theorem probe_never_raises_witness:
  "run_ffprobe (test_env never) [''a.mp3''] (ffprobe_cmd ''a.mp3'') =
      Inr \<lparr>returncode = 0, stdout = ''2.000000'' @ [CHR 0x0A], stderr = []\<rparr>
   \<and> py_float (test_env never) (strip (''2.000000'' @ [CHR 0x0A])) = Inr 2.0
   \<and> get_media_duration (test_env never) [''a.mp3''] ''a.mp3'' = 2.0
   \<and> run_ffprobe (test_env never) [''a.mp3''] (ffprobe_cmd ''gone.mp3'') =
      Inr \<lparr>returncode = 1, stdout = [], stderr = ''No such file or directory''\<rparr>
   \<and> py_float (test_env never) (strip []) = Inl ValueError
   \<and> get_media_duration (test_env never) [''a.mp3''] ''gone.mp3'' = 5.0
   \<and> run_ffprobe no_ffprobe_env [''a.mp3''] (ffprobe_cmd ''a.mp3'') = Inl OSError
   \<and> get_media_duration no_ffprobe_env [''a.mp3''] ''a.mp3'' = 5.0"
proof -
  let ?env = "test_env never"
  let ?good = "\<lparr>returncode = 0, stdout = ''2.000000'' @ [CHR 0x0A], stderr = []\<rparr>"
  let ?bad = "\<lparr>returncode = 1, stdout = [], stderr = ''No such file or directory''\<rparr>"
  have r1: "run_ffprobe ?env [''a.mp3''] (ffprobe_cmd ''a.mp3'') = Inr ?good"
    by (simp add: env_defs ffprobe_cmd_def)
  have f1: "py_float ?env (strip (stdout ?good)) = Inr 2.0"
    by (simp add: env_defs strip_def is_space_def)
  have r2: "run_ffprobe ?env [''a.mp3''] (ffprobe_cmd ''gone.mp3'') = Inr ?bad"
    by (simp add: env_defs ffprobe_cmd_def)
  have f2: "py_float ?env (strip (stdout ?bad)) = Inl ValueError"
    by (simp add: env_defs strip_def)
  have r3: "run_ffprobe no_ffprobe_env [''a.mp3''] (ffprobe_cmd ''a.mp3'') = Inl OSError"
    by (simp add: no_ffprobe_env_def)
  from probe_never_raises [of ?env "[''a.mp3'']" "''a.mp3''" ValueError ?good "2.0"] r1 f1
  have g1: "get_media_duration ?env [''a.mp3''] ''a.mp3'' = 2.0"
    by blast
  from probe_never_raises [of ?env "[''a.mp3'']" "''gone.mp3''" ValueError ?bad 0] r2 f2
  have g2: "get_media_duration ?env [''a.mp3''] ''gone.mp3'' = 5.0"
    by blast
  from probe_never_raises [of no_ffprobe_env "[''a.mp3'']" "''a.mp3''" OSError ?good 0] r3
  have g3: "get_media_duration no_ffprobe_env [''a.mp3''] ''a.mp3'' = 5.0"
    by blast
  from f1 have f1': "py_float ?env (strip (''2.000000'' @ [CHR 0x0A])) = Inr 2.0" by simp
  from f2 have f2': "py_float ?env (strip []) = Inl ValueError" by simp
  from r1 f1' g1 r2 f2' g2 r3 g3 show ?thesis by blast
qed

subsection \<open>The filter and the manifest of the merger\<close>

lemma valid_videos_Nil [simp]: "valid_videos env w [] = []"
  by (simp add: valid_videos_def)

lemma valid_videos_None [simp]: "valid_videos env w (None # vs) = valid_videos env w vs"
  by (simp add: valid_videos_def)

lemma valid_videos_Some [simp]:
  "valid_videos env w (Some v # vs) =
     (if v \<noteq> [] \<and> path_exists env w v then v # valid_videos env w vs
      else valid_videos env w vs)"
  by (simp add: valid_videos_def)

lemma valid_videos_append [simp]:
  "valid_videos env w (xs @ ys) = valid_videos env w xs @ valid_videos env w ys"
  by (simp add: valid_videos_def)






subsection \<open>Scenes without a video\<close>

lemma compose_scene_missing:
  "\<not> path_exists env w video_path \<Longrightarrow>
   compose_scene env w scene_id video_path audio_files = (None, w, [])"
  by (simp add: compose_scene_def)

lemma compose_scene_present:
  "path_exists env w video_path \<Longrightarrow>
   fst (compose_scene env w scene_id video_path audio_files) = Some (composed_path scene_id)"
  by (simp add: compose_scene_def Let_def)

lemma composed_path_nonempty: "composed_path scene_id \<noteq> []"
  by (simp add: composed_path_def COMPOSED_DIR_def)

text \<open>
  Claim C5. A scene whose video path names no existing file makes \<^verbatim>\<open>compose_scene\<close>
  return \<^verbatim>\<open>None\<close> without running anything, and a \<^verbatim>\<open>None\<close> entry contributes nothing to
  the entries the merger keeps. For three scenes of which the first and the third have a
  video at the time they are composed and the second has none, the list handed to the
  merger is the composed path of scene 1, \<^verbatim>\<open>None\<close>, the composed path of scene 3, and
  the merger keeps, of the composed paths of scenes 1 and 3 in this order, those that
  exist.
\<close>

theorem missing_video_dropped:
  "(\<not> path_exists env w video_path
      \<longrightarrow> compose_scene env w scene_id video_path audio_files = (None, w, []))
   \<and> valid_videos env w' (xs @ None # ys) = valid_videos env w' (xs @ ys)
   \<and> (path_exists env w v1
        \<and> \<not> path_exists env (fst (snd (compose_scene env w 1 v1 (audio_for by_scene 1)))) v2
        \<and> path_exists env (fst (snd (compose_scene env w 1 v1 (audio_for by_scene 1)))) v3
      \<longrightarrow> fst (compose_all env w by_scene (enumerate 0 [v1, v2, v3])) =
            [Some (composed_path 1), None, Some (composed_path 3)]
          \<and> valid_videos env w' (fst (compose_all env w by_scene (enumerate 0 [v1, v2, v3]))) =
            filter (path_exists env w') [composed_path 1, composed_path 3])"
proof -
  let ?w1 = "fst (snd (compose_scene env w 1 v1 (audio_for by_scene 1)))"
  have drop: "\<not> path_exists env w video_path
      \<longrightarrow> compose_scene env w scene_id video_path audio_files = (None, w, [])"
    by (simp add: compose_scene_missing)
  have placeholder: "valid_videos env w' (xs @ None # ys) = valid_videos env w' (xs @ ys)"
    by simp
  have three: "fst (compose_all env w by_scene (enumerate 0 [v1, v2, v3])) =
        [Some (composed_path 1), None, Some (composed_path 3)]
      \<and> valid_videos env w' (fst (compose_all env w by_scene (enumerate 0 [v1, v2, v3]))) =
        filter (path_exists env w') [composed_path 1, composed_path 3]"
    if e1: "path_exists env w v1" and e2: "\<not> path_exists env ?w1 v2"
      and e3: "path_exists env ?w1 v3"
  proof -
    have s2: "compose_scene env ?w1 2 v2 (audio_for by_scene 2) = (None, ?w1, [])"
      using e2 by (rule compose_scene_missing)
    have list: "fst (compose_all env w by_scene (enumerate 0 [v1, v2, v3])) =
        [Some (composed_path 1), None, Some (composed_path 3)]"
      by (simp add: Let_def s2 compose_scene_present [OF e1] compose_scene_present [OF e3])
    show ?thesis
      unfolding list by (simp add: composed_path_nonempty)
  qed
  from drop placeholder three show ?thesis by blast
qed

theorem missing_video_dropped_witness:
  "\<not> path_exists (test_env never) [''v1.mp4'', ''v3.mp4''] ''v2.mp4''
   \<and> compose_scene (test_env never) [''v1.mp4'', ''v3.mp4''] 2 ''v2.mp4'' [] =
       (None, [''v1.mp4'', ''v3.mp4''], [])
   \<and> path_exists (test_env never) [''v1.mp4'', ''v3.mp4''] ''v1.mp4''
   \<and> \<not> path_exists (test_env never)
         (fst (snd (compose_scene (test_env never) [''v1.mp4'', ''v3.mp4''] 1 ''v1.mp4''
            (audio_for Map.empty 1)))) ''v2.mp4''
   \<and> path_exists (test_env never)
         (fst (snd (compose_scene (test_env never) [''v1.mp4'', ''v3.mp4''] 1 ''v1.mp4''
            (audio_for Map.empty 1)))) ''v3.mp4''
   \<and> fst (compose_all (test_env never) [''v1.mp4'', ''v3.mp4''] Map.empty
        (enumerate 0 [''v1.mp4'', ''v2.mp4'', ''v3.mp4''])) =
       [Some ''outputs/composed/scene_1_composed.mp4'', None,
        Some ''outputs/composed/scene_3_composed.mp4'']
   \<and> valid_videos (test_env never)
        (fst (snd (compose_all (test_env never) [''v1.mp4'', ''v3.mp4''] Map.empty
           (enumerate 0 [''v1.mp4'', ''v2.mp4'', ''v3.mp4'']))))
        (fst (compose_all (test_env never) [''v1.mp4'', ''v3.mp4''] Map.empty
           (enumerate 0 [''v1.mp4'', ''v2.mp4'', ''v3.mp4'']))) =
       [''outputs/composed/scene_1_composed.mp4'', ''outputs/composed/scene_3_composed.mp4'']"
proof -
  let ?env = "test_env never"
  let ?w = "[''v1.mp4'', ''v3.mp4'']"
  let ?vs = "[''v1.mp4'', ''v2.mp4'', ''v3.mp4'']"
  let ?w1 = "fst (snd (compose_scene ?env ?w 1 ''v1.mp4'' (audio_for Map.empty 1)))"
  let ?all = "compose_all ?env ?w Map.empty (enumerate 0 ?vs)"
  have paths: "composed_path 1 = ''outputs/composed/scene_1_composed.mp4''"
    "composed_path 3 = ''outputs/composed/scene_3_composed.mp4''"
    by (simp_all add: composed_path_def COMPOSED_DIR_def str_int_def str_nat.simps digit_char_def)
  have w1: "?w1 = [''outputs/composed/scene_1_composed.mp4'', ''v1.mp4'', ''v3.mp4'']"
    by (simp add: env_defs compose_defs audio_for_def)
  have m: "\<not> path_exists ?env ?w ''v2.mp4''" by (simp add: env_defs)
  have e1: "path_exists ?env ?w ''v1.mp4''" by (simp add: env_defs)
  have e2: "\<not> path_exists ?env ?w1 ''v2.mp4''" unfolding w1 by (simp add: env_defs)
  have e3: "path_exists ?env ?w1 ''v3.mp4''" unfolding w1 by (simp add: env_defs)
  from missing_video_dropped [of ?env ?w "''v2.mp4''" 2 "[]"] m
  have dropped: "compose_scene ?env ?w 2 ''v2.mp4'' [] = (None, ?w, [])"
    by blast
  have final: "fst (snd ?all) =
      [''outputs/composed/scene_3_composed.mp4'', ''outputs/composed/scene_1_composed.mp4'',
       ''v1.mp4'', ''v3.mp4'']"
    by (simp add: env_defs compose_defs audio_for_def)
  from missing_video_dropped
    [of ?env ?w "''v2.mp4''" 2 "[]" "fst (snd ?all)" "[]" "[]" "''v1.mp4''" Map.empty
      "''v2.mp4''" "''v3.mp4''"] e1 e2 e3
  have list: "fst ?all = [Some (composed_path 1), None, Some (composed_path 3)]"
    and kept: "valid_videos ?env (fst (snd ?all)) (fst ?all) =
      filter (path_exists ?env (fst (snd ?all))) [composed_path 1, composed_path 3]"
    by blast+
  from list have list': "fst ?all =
      [Some ''outputs/composed/scene_1_composed.mp4'', None,
       Some ''outputs/composed/scene_3_composed.mp4'']"
    unfolding paths .
  from kept have kept': "valid_videos ?env (fst (snd ?all)) (fst ?all) =
      [''outputs/composed/scene_1_composed.mp4'', ''outputs/composed/scene_3_composed.mp4'']"
    unfolding paths final by (simp add: env_defs)
  from m dropped e1 e2 e3 list' kept' show ?thesis by blast
qed

subsection \<open>Failure of the merge encode\<close>

lemma compose_scene_events:
  "e \<in> set (snd (snd (compose_scene env w scene_id video_path audio_files))) \<Longrightarrow>
   \<exists>cmd. e = Run cmd"
  by (auto simp: compose_scene_def Let_def split: if_splits)

lemma compose_all_events:
  "e \<in> set (snd (snd (compose_all env w by_scene vs))) \<Longrightarrow> \<exists>cmd. e = Run cmd"
proof (induction vs arbitrary: w)
  case Nil
  then show ?case by simp
next
  case (Cons v vs)
  obtain idx video_path where v: "v = (idx, video_path)" by (cases v)
  from Cons.prems show ?case
    unfolding v
    by (auto simp: Let_def dest: compose_scene_events Cons.IH)
qed

lemma concat_file_not_sidecar: "concat_file \<noteq> sidecar_path"
  by (simp add: concat_file_def sidecar_path_def FINAL_DIR_def)

lemma merge_scenes_events:
  "WriteText sidecar_path content \<notin> set (snd (snd (merge_scenes env w composed_videos)))"
  using concat_file_not_sidecar by (simp add: merge_scenes_def Let_def)

lemma merge_scenes_result:
  "fst (merge_scenes env w composed_videos) = Some p \<Longrightarrow> p = final_reel_path"
  by (simp add: merge_scenes_def Let_def split: if_splits)

lemma final_reel_path_nonempty: "final_reel_path \<noteq> []"
  by (simp add: final_reel_path_def FINAL_DIR_def)

text \<open>
  Claim C8. When the merge encode ends with a non-zero return code, \<^verbatim>\<open>merge_scenes\<close>
  returns \<^verbatim>\<open>None\<close> having run that one command only (after writing the concat list): no
  retry. Whenever \<^verbatim>\<open>merge_scenes\<close> returns \<^verbatim>\<open>None\<close>, \<^verbatim>\<open>main\<close> ends with exit status 1 and
  has not written the sidecar file. If \<^verbatim>\<open>main\<close> wrote the sidecar, then \<^verbatim>\<open>merge_scenes\<close>
  returned a path, the sidecar's content is that path, and the exit status is 0.
\<close>

theorem merge_failure_is_fatal:
  "(valid_videos env w composed_videos \<noteq> []
      \<and> returncode (fst (run_ffmpeg env
            (write_text env w concat_file (manifest env w (valid_videos env w composed_videos)))
            (merge_cmd concat_file final_reel_path))) \<noteq> 0
    \<longrightarrow> merge_scenes env w composed_videos =
          (None,
           snd (run_ffmpeg env
              (write_text env w concat_file (manifest env w (valid_videos env w composed_videos)))
              (merge_cmd concat_file final_reel_path)),
           [WriteText concat_file (manifest env w (valid_videos env w composed_videos)),
            Run (merge_cmd concat_file final_reel_path)]))
   \<and> (fst (merge_scenes env
          (fst (snd (compose_all env w0 (audio_by_scene audio_data) (enumerate 0 video_paths))))
          (fst (compose_all env w0 (audio_by_scene audio_data) (enumerate 0 video_paths)))) = None
    \<longrightarrow> fst (main env w0 video_paths audio_data) = 1
        \<and> (\<forall>content. WriteText sidecar_path content
              \<notin> set (snd (snd (main env w0 video_paths audio_data))))
        \<and> fst (snd (main env w0 video_paths audio_data)) =
            fst (snd (merge_scenes env
              (fst (snd (compose_all env w0 (audio_by_scene audio_data) (enumerate 0 video_paths))))
              (fst (compose_all env w0 (audio_by_scene audio_data) (enumerate 0 video_paths))))))
   \<and> (WriteText sidecar_path body \<in> set (snd (snd (main env w0 video_paths audio_data)))
    \<longrightarrow> fst (merge_scenes env
          (fst (snd (compose_all env w0 (audio_by_scene audio_data) (enumerate 0 video_paths))))
          (fst (compose_all env w0 (audio_by_scene audio_data) (enumerate 0 video_paths)))) =
          Some body
        \<and> fst (main env w0 video_paths audio_data) = 0)"
proof -
  let ?composed = "compose_all env w0 (audio_by_scene audio_data) (enumerate 0 video_paths)"
  let ?merged = "merge_scenes env (fst (snd ?composed)) (fst ?composed)"
  have no_retry: "valid_videos env w composed_videos \<noteq> []
      \<and> returncode (fst (run_ffmpeg env
            (write_text env w concat_file (manifest env w (valid_videos env w composed_videos)))
            (merge_cmd concat_file final_reel_path))) \<noteq> 0
    \<longrightarrow> merge_scenes env w composed_videos =
          (None,
           snd (run_ffmpeg env
              (write_text env w concat_file (manifest env w (valid_videos env w composed_videos)))
              (merge_cmd concat_file final_reel_path)),
           [WriteText concat_file (manifest env w (valid_videos env w composed_videos)),
            Run (merge_cmd concat_file final_reel_path)])"
    by (simp add: merge_scenes_def Let_def)
  have earlier: "WriteText sidecar_path c \<notin> set (snd (snd ?composed) @ snd (snd ?merged))" for c
    using compose_all_events [of "WriteText sidecar_path c" env w0 "audio_by_scene audio_data"
        "enumerate 0 video_paths"]
      merge_scenes_events [of c env "fst (snd ?composed)" "fst ?composed"]
    by auto
  have fatal: "fst (main env w0 video_paths audio_data) = 1
      \<and> (\<forall>content. WriteText sidecar_path content
            \<notin> set (snd (snd (main env w0 video_paths audio_data))))
      \<and> fst (snd (main env w0 video_paths audio_data)) = fst (snd ?merged)"
    if "fst ?merged = None"
    using that earlier by (simp add: main_def Let_def)
  have written: "fst ?merged = Some body \<and> fst (main env w0 video_paths audio_data) = 0"
    if wr: "WriteText sidecar_path body \<in> set (snd (snd (main env w0 video_paths audio_data)))"
  proof (cases "fst ?merged")
    case None
    with fatal wr show ?thesis by blast
  next
    case (Some p)
    then have p: "p = final_reel_path" by (rule merge_scenes_result)
    from wr Some earlier [of body] have "body = p"
      by (simp add: main_def Let_def p final_reel_path_nonempty)
    with Some show ?thesis
      by (simp add: main_def Let_def p final_reel_path_nonempty)
  qed
  from no_retry fatal written show ?thesis by blast
qed

theorem merge_failure_is_fatal_witness:
  "valid_videos (test_env merge_fails) [''s1.mp4''] [Some ''s1.mp4''] \<noteq> []
   \<and> returncode (fst (run_ffmpeg (test_env merge_fails)
        (write_text (test_env merge_fails) [''s1.mp4''] concat_file
           (manifest (test_env merge_fails) [''s1.mp4'']
              (valid_videos (test_env merge_fails) [''s1.mp4''] [Some ''s1.mp4''])))
        (merge_cmd concat_file final_reel_path))) \<noteq> 0
   \<and> merge_scenes (test_env merge_fails) [''s1.mp4''] [Some ''s1.mp4''] =
       (None, [''outputs/final/concat_list.txt'', ''s1.mp4''],
        [WriteText ''outputs/final/concat_list.txt''
           (''file '' @ [CHR 0x27] @ ''/work/s1.mp4'' @ [CHR 0x27, CHR 0x0A]),
         Run (merge_cmd ''outputs/final/concat_list.txt'' ''outputs/final/final_reel.mp4'')])
   \<and> fst (merge_scenes (test_env merge_fails)
        (fst (snd (compose_all (test_env merge_fails) [''v1.mp4''] (audio_by_scene [])
           (enumerate 0 [''v1.mp4'']))))
        (fst (compose_all (test_env merge_fails) [''v1.mp4''] (audio_by_scene [])
           (enumerate 0 [''v1.mp4''])))) = None
   \<and> fst (main (test_env merge_fails) [''v1.mp4''] [''v1.mp4''] []) = 1
   \<and> WriteText sidecar_path ''outputs/final/final_reel.mp4''
        \<notin> set (snd (snd (main (test_env merge_fails) [''v1.mp4''] [''v1.mp4''] [])))
   \<and> WriteText sidecar_path ''outputs/final/final_reel.mp4''
        \<in> set (snd (snd (main (test_env never) [''v1.mp4''] [''v1.mp4''] [])))
   \<and> fst (merge_scenes (test_env never)
        (fst (snd (compose_all (test_env never) [''v1.mp4''] (audio_by_scene [])
           (enumerate 0 [''v1.mp4'']))))
        (fst (compose_all (test_env never) [''v1.mp4''] (audio_by_scene [])
           (enumerate 0 [''v1.mp4''])))) = Some ''outputs/final/final_reel.mp4''
   \<and> fst (main (test_env never) [''v1.mp4''] [''v1.mp4''] []) = 0"
proof -
  let ?bad = "test_env merge_fails"
  let ?good = "test_env never"
  let ?reel = "''outputs/final/final_reel.mp4''"
  have names: "concat_file = ''outputs/final/concat_list.txt''"
    "final_reel_path = ''outputs/final/final_reel.mp4''"
    by (simp_all add: concat_file_def final_reel_path_def FINAL_DIR_def)
  have valid: "valid_videos ?bad [''s1.mp4''] [Some ''s1.mp4''] = [''s1.mp4'']"
    by (simp add: env_defs)
  then have ne: "valid_videos ?bad [''s1.mp4''] [Some ''s1.mp4''] \<noteq> []"
    by simp
  have rc: "returncode (fst (run_ffmpeg ?bad
        (write_text ?bad [''s1.mp4''] concat_file
           (manifest ?bad [''s1.mp4''] (valid_videos ?bad [''s1.mp4''] [Some ''s1.mp4''])))
        (merge_cmd concat_file final_reel_path))) \<noteq> 0"
    by (simp add: env_defs merge_fails_def merge_cmd_def)
  from merge_failure_is_fatal [of ?bad "[''s1.mp4'']" "[Some ''s1.mp4'']"] ne rc
  have "merge_scenes ?bad [''s1.mp4''] [Some ''s1.mp4''] =
      (None,
       snd (run_ffmpeg ?bad
          (write_text ?bad [''s1.mp4''] concat_file
             (manifest ?bad [''s1.mp4''] (valid_videos ?bad [''s1.mp4''] [Some ''s1.mp4''])))
          (merge_cmd concat_file final_reel_path)),
       [WriteText concat_file
          (manifest ?bad [''s1.mp4''] (valid_videos ?bad [''s1.mp4''] [Some ''s1.mp4''])),
        Run (merge_cmd concat_file final_reel_path)])"
    by blast
  then have merge: "merge_scenes ?bad [''s1.mp4''] [Some ''s1.mp4''] =
      (None, [''outputs/final/concat_list.txt'', ''s1.mp4''],
       [WriteText ''outputs/final/concat_list.txt''
          (''file '' @ [CHR 0x27] @ ''/work/s1.mp4'' @ [CHR 0x27, CHR 0x0A]),
        Run (merge_cmd ''outputs/final/concat_list.txt'' ''outputs/final/final_reel.mp4'')])"
    unfolding valid names
    by (simp add: env_defs merge_fails_def manifest_def concat_line_def)
       (simp add: merge_cmd_def)
  let ?cb = "compose_all ?bad [''v1.mp4''] (audio_by_scene []) (enumerate 0 [''v1.mp4''])"
  let ?cg = "compose_all ?good [''v1.mp4''] (audio_by_scene []) (enumerate 0 [''v1.mp4''])"
  have cb: "?cb = ([Some ''outputs/composed/scene_1_composed.mp4''],
      [''outputs/composed/scene_1_composed.mp4'', ''v1.mp4''],
      [Run [''ffmpeg'', ''-y'', ''-i'', ''v1.mp4'', ''-c:v'', ''copy'', ''-an'',
            ''outputs/composed/scene_1_composed.mp4'']])"
    by (simp add: env_defs compose_defs audio_for_def audio_by_scene_def merge_fails_def)
  have cg: "?cg = ([Some ''outputs/composed/scene_1_composed.mp4''],
      [''outputs/composed/scene_1_composed.mp4'', ''v1.mp4''],
      [Run [''ffmpeg'', ''-y'', ''-i'', ''v1.mp4'', ''-c:v'', ''copy'', ''-an'',
            ''outputs/composed/scene_1_composed.mp4'']])"
    by (simp add: env_defs compose_defs audio_for_def audio_by_scene_def)
  have mb: "fst (merge_scenes ?bad (fst (snd ?cb)) (fst ?cb)) = None"
    unfolding cb
    by (simp add: merge_scenes_def Let_def env_defs merge_fails_def merge_cmd_def)
  have mg: "fst (merge_scenes ?good (fst (snd ?cg)) (fst ?cg)) = Some ?reel"
    unfolding cg
    by (simp add: merge_scenes_def Let_def env_defs names)
  from merge_failure_is_fatal
    [of ?bad "[''s1.mp4'']" "[Some ''s1.mp4'']" "[''v1.mp4'']" "[]" "[''v1.mp4'']" ?reel] mb
  have exit1: "fst (main ?bad [''v1.mp4''] [''v1.mp4''] []) = 1"
    and unwritten: "WriteText sidecar_path ?reel
        \<notin> set (snd (snd (main ?bad [''v1.mp4''] [''v1.mp4''] [])))"
    by blast+
  have wrote: "WriteText sidecar_path ?reel
        \<in> set (snd (snd (main ?good [''v1.mp4''] [''v1.mp4''] [])))"
    unfolding main_def cg
    by (simp add: merge_scenes_def Let_def env_defs names final_reel_path_nonempty)
  from merge_failure_is_fatal
    [of ?good "[''s1.mp4'']" "[Some ''s1.mp4'']" "[''v1.mp4'']" "[]" "[''v1.mp4'']" ?reel] wrote
  have exit0: "fst (main ?good [''v1.mp4''] [''v1.mp4''] []) = 0"
    by blast
  from ne rc merge mb exit1 unwritten wrote mg exit0 show ?thesis by blast
qed

end
